theory Spec2Isabelle
  imports Main "HOL-Library.Word"
begin

section \<open>Service identities (service.go, ServiceRecord)\<close>

text \<open>
  A Go \<^verbatim>\<open>string\<close> is an immutable byte sequence: it is modelled as a HOL
  \<^typ>\<open>string\<close>, with value semantics. The struct \<^verbatim>\<open>ServiceRecord\<close> has three
  exported fields and three private fields that memoise the derived names; the empty
  string in a private field means "not computed yet".
\<close>

record ServiceRecord =
  Instance :: string
  Service :: string
  Domain :: string
  serviceName :: string
  serviceInstanceName :: string
  serviceTypeName :: string

text \<open>
  Modelled from the spec: \<^verbatim>\<open>trimDot\<close> is called by service.go but declared in another
  file of the package, whose source is not available. The specification says
  that name composition "trims any existing trailing delimiter from each input component
  before concatenation", that "trailing separators [are] normalized to exactly one
  trailing delimiter" and that the trimming is idempotent: every dot at the end of the
  component is removed, nothing else is touched.
\<close>

definition trimDot :: "string \<Rightarrow> string" where
  "trimDot s = rev (dropWhile (\<lambda>c. c = CHR ''.'') (rev s))"

text \<open>
  \<^verbatim>\<open>NewServiceRecord\<close> returns a pointer to a fresh struct; the model returns the
  struct stored there.
\<close>

definition NewServiceRecord :: "string \<Rightarrow> string \<Rightarrow> string \<Rightarrow> ServiceRecord" where
  "NewServiceRecord instance service domain =
     \<lparr>Instance = instance, Service = service, Domain = domain,
      serviceName = [], serviceInstanceName = [], serviceTypeName = []\<rparr>"

text \<open>
  The three methods have a pointer receiver and write the memo fields of the receiver.
  The model passes the receiver in and returns the result together with the updated
  receiver. Here and below the receiver is a struct, that is, the receiver pointer is not
  nil. They are defined on the record scheme, since Go promotes them to every struct
  that embeds \<^verbatim>\<open>ServiceRecord\<close>. \<^verbatim>\<open>fmt.Sprintf\<close> with \<^verbatim>\<open>%s\<close> verbs is
  concatenation.
\<close>

definition ServiceName :: "'a ServiceRecord_scheme \<Rightarrow> string \<times> 'a ServiceRecord_scheme" where
  "ServiceName s =
     (let s1 = (if serviceName s = []
                then s\<lparr>serviceName := trimDot (Service s) @ ''.'' @ trimDot (Domain s) @ ''.''\<rparr>
                else s)
      in (serviceName s1, s1))"

definition ServiceInstanceName :: "'a ServiceRecord_scheme \<Rightarrow> string \<times> 'a ServiceRecord_scheme" where
  "ServiceInstanceName s =
     (if Instance s = [] then ([], s)
      else
        (let s2 = (if serviceInstanceName s = []
                   then (let i = trimDot (Instance s);
                             (n, s1) = ServiceName s
                         in s1\<lparr>serviceInstanceName := i @ ''.'' @ n\<rparr>)
                   else s)
         in (serviceInstanceName s2, s2)))"

definition ServiceTypeName :: "'a ServiceRecord_scheme \<Rightarrow> string \<times> 'a ServiceRecord_scheme" where
  "ServiceTypeName s =
     (let s1 = (if serviceTypeName s = []
                then (let domain = (if length (Domain s) > 0 then trimDot (Domain s)
                                    else ''local'')
                      in s\<lparr>serviceTypeName := ''_services._dns-sd._udp.'' @ domain @ ''.''\<rparr>)
                else s)
      in (serviceTypeName s1, s1))"

section \<open>Memory, panics and channels\<close>

text \<open>
  Pointers, slices and channels are references: what a claim says about closing a channel
  twice or about writing through a returned slice depends on which references are shared.
  The model has an explicit store, one component per kind of cell, and an allocation
  pointer \<open>nextAddr\<close>: every address below it is in use, every allocation takes the
  address \<open>nextAddr\<close> and moves it up. A pointer is \<^typ>\<open>nat option\<close>, with
  \<^term>\<open>None\<close> for Go's \<^verbatim>\<open>nil\<close>. A run-time panic is a value of type \<open>panic\<close>.
\<close>

type_synonym addr = nat

datatype panic = NilDereference | IndexOutOfRange | CloseOfNilChannel | CloseOfClosedChannel

text \<open>
  A Go slice value is a header: a pointer to its first element, a length and a capacity.
  Copying the header shares the elements. Element \<open>j\<close> of a slice lives at address
  \<open>data + j\<close>.
\<close>

record slice =
  data :: "addr option"
  len :: nat
  cap :: nat

definition nil_slice :: slice where
  "nil_slice = \<lparr>data = None, len = 0, cap = 0\<rparr>"

text \<open>
  \<^verbatim>\<open>ServiceEventType\<close> is a defined string type with two named constants; any string
  converts to it, and its zero value is the empty string.
\<close>

type_synonym ServiceEventType = string

definition NewOrUpdated :: ServiceEventType where
  "NewOrUpdated = ''NewOrUpdated''"

definition Removed :: ServiceEventType where
  "Removed = ''Removed''"

text \<open>
  \<^verbatim>\<open>ServiceEntry\<close> embeds \<^verbatim>\<open>ServiceRecord\<close>: a record extension. \<^verbatim>\<open>Text\<close>,
  \<^verbatim>\<open>AddrIPv4\<close> and \<^verbatim>\<open>AddrIPv6\<close> are slice headers, \<^verbatim>\<open>refreshTime\<close> and
  \<^verbatim>\<open>expiryTime\<close> are pointers to \<^verbatim>\<open>time.Time\<close> values. \<^verbatim>\<open>Port\<close> is a Go
  \<^verbatim>\<open>int\<close> (64 bits on the usual platforms); no code here computes with it.
\<close>

record ServiceEntry = ServiceRecord +
  HostName :: string
  Port :: "64 word"
  Text :: slice
  TTL :: "32 word"
  AddrIPv4 :: slice
  AddrIPv6 :: slice
  eventType :: ServiceEventType
  refreshTime :: "addr option"
  expiryTime :: "addr option"

text \<open>
  The store. \<open>chan_closed\<close> holds, for each channel, whether it has been closed (the
  only part of a channel's state that this file touches); \<open>objs\<close> holds the
  \<^verbatim>\<open>ServiceEntry\<close> cells, \<open>strCells\<close> the elements of \<^verbatim>\<open>[]string\<close> slices,
  \<open>ipCells\<close> the elements of \<^verbatim>\<open>[]net.IP\<close> slices (each one a \<^verbatim>\<open>[]byte\<close> header),
  \<open>byteCells\<close> the bytes of the addresses, and \<open>timeCells\<close> the \<^verbatim>\<open>time.Time\<close> values,
  each abstracted to the instant it denotes (nanoseconds since the epoch).
\<close>

record heap =
  chan_closed :: "addr \<Rightarrow> bool"
  objs :: "addr \<Rightarrow> ServiceEntry"
  strCells :: "addr \<Rightarrow> string"
  ipCells :: "addr \<Rightarrow> slice"
  byteCells :: "addr \<Rightarrow> 8 word"
  timeCells :: "addr \<Rightarrow> int"
  nextAddr :: addr

text \<open>
  The builtin \<^verbatim>\<open>make(chan T)\<close> allocates an open channel; the builtin
  \<^verbatim>\<open>close\<close> panics on a nil channel and on a channel that is closed already.
\<close>

definition make_chan :: "heap \<Rightarrow> addr \<times> heap" where
  "make_chan h =
     (nextAddr h, h\<lparr>chan_closed := (chan_closed h)(nextAddr h := False),
                    nextAddr := Suc (nextAddr h)\<rparr>)"

definition close_chan :: "addr option \<Rightarrow> heap \<Rightarrow> panic + heap" where
  "close_chan c h =
     (case c of
        None \<Rightarrow> Inl CloseOfNilChannel
      | Some a \<Rightarrow>
          if chan_closed h a then Inl CloseOfClosedChannel
          else Inr (h\<lparr>chan_closed := (chan_closed h)(a := True)\<rparr>))"

section \<open>Lookup subscriptions (service.go, LookupParams)\<close>

text \<open>
  \<^verbatim>\<open>LookupParams\<close> embeds \<^verbatim>\<open>ServiceRecord\<close> and holds two channels and a
  \<^verbatim>\<open>sync.Once\<close>, whose state is whether its action has run.
\<close>

record LookupParams = ServiceRecord +
  Entries :: "addr option"
  stopProbing :: "addr option"
  once :: bool

definition NewLookupParams ::
  "heap \<Rightarrow> string \<Rightarrow> string \<Rightarrow> string \<Rightarrow> addr option \<Rightarrow> LookupParams \<times> heap" where
  "NewLookupParams h instance service domain entries =
     (let (c, h1) = make_chan h
      in (ServiceRecord.extend (NewServiceRecord instance service domain)
            (LookupParams.fields entries (Some c) False), h1))"

text \<open>
  \<^verbatim>\<open>done\<close> and \<^verbatim>\<open>disableProbing\<close> have a pointer receiver; the model returns the
  receiver after the call together with the store. (\<open>done\<close> is a reserved word of the
  proof language, so the method is named \<open>LookupParams_done\<close>.)
\<close>

definition LookupParams_done :: "heap \<Rightarrow> LookupParams \<Rightarrow> panic + (LookupParams \<times> heap)" where
  "LookupParams_done h l =
     (if Entries l \<noteq> None
      then (case close_chan (Entries l) h of Inl e \<Rightarrow> Inl e | Inr h1 \<Rightarrow> Inr (l, h1))
      else Inr (l, h))"

text \<open>
  \<^verbatim>\<open>once.Do(f)\<close> runs \<open>f\<close> if the \<^verbatim>\<open>Once\<close> has not run an action yet, and
  records that it has.
\<close>

definition disableProbing :: "heap \<Rightarrow> LookupParams \<Rightarrow> panic + (LookupParams \<times> heap)" where
  "disableProbing h l =
     (if once l then Inr (l, h)
      else (case close_chan (stopProbing l) h of
              Inl e \<Rightarrow> Inl e
            | Inr h1 \<Rightarrow> Inr (l\<lparr>once := True\<rparr>, h1)))"

section \<open>Service entries, the entry cache and the browser\<close>

definition NewServiceEntry :: "string \<Rightarrow> string \<Rightarrow> string \<Rightarrow> ServiceEntry" where
  "NewServiceEntry instance service domain =
     ServiceRecord.extend (NewServiceRecord instance service domain)
       (ServiceEntry.fields [] 0 nil_slice 0 nil_slice nil_slice [] None None)"

definition EventType :: "ServiceEntry \<Rightarrow> ServiceEventType" where
  "EventType s = eventType s"

text \<open>
  \<^verbatim>\<open>entryCache\<close> is a map from keys to \<^verbatim>\<open>*ServiceEntry\<close> behind a
  \<^verbatim>\<open>sync.RWMutex\<close>. The model is sequential: the lock, which \<^verbatim>\<open>Entries\<close> takes
  and releases around its loop, has no counterpart. Nothing in this file writes the map,
  so the \<^verbatim>\<open>Browser\<close> holds the cache by value; \<^term>\<open>None\<close> is a nil
  \<^verbatim>\<open>cache\<close> pointer. A nil map and an empty map are both \<^term>\<open>Map.empty\<close>.
\<close>

record entryCache =
  entries :: "string \<rightharpoonup> addr option"

record Browser =
  cache :: "entryCache option"

text \<open>
  \<^verbatim>\<open>r = append(r, *v)\<close> copies the struct \<^verbatim>\<open>*v\<close> into a new cell at the end of
  \<open>r\<close>. The slice \<open>r\<close> is local to \<^verbatim>\<open>Entries\<close> until it is returned, so where
  \<^verbatim>\<open>append\<close> puts its elements cannot be observed: the model allocates one fresh
  \<^verbatim>\<open>ServiceEntry\<close> cell per element and represents \<open>r\<close> by the list of the
  addresses of its elements (the empty list for the nil slice).
\<close>

definition append_entry :: "ServiceEntry \<Rightarrow> heap \<Rightarrow> addr \<times> heap" where
  "append_entry e h =
     (nextAddr h, h\<lparr>objs := (objs h)(nextAddr h := e), nextAddr := Suc (nextAddr h)\<rparr>)"

text \<open>
  Go leaves the order in which \<^verbatim>\<open>range\<close> visits a map unspecified. The order the
  run time picks is a parameter \<open>ks\<close> of the model, a list of the keys of the map without
  repetition (\<open>range_order\<close>). The loop body dereferences \<open>v\<close>, which panics on a nil
  pointer.
\<close>

definition range_order :: "('k \<rightharpoonup> 'v) \<Rightarrow> 'k list \<Rightarrow> bool" where
  "range_order m ks \<longleftrightarrow> distinct ks \<and> set ks = dom m"

fun Entries_range ::
  "(string \<rightharpoonup> addr option) \<Rightarrow> string list \<Rightarrow> addr list \<Rightarrow> heap \<Rightarrow> panic + (addr list \<times> heap)" where
  "Entries_range m [] r h = Inr (r, h)"
| "Entries_range m (k # ks) r h =
     (case m k of
        None \<Rightarrow> Entries_range m ks r h
      | Some None \<Rightarrow> Inl NilDereference
      | Some (Some p) \<Rightarrow>
          (let (a, h1) = append_entry (objs h p) h
           in Entries_range m ks (r @ [a]) h1))"

definition Browser_Entries :: "heap \<Rightarrow> Browser \<Rightarrow> string list \<Rightarrow> panic + (addr list \<times> heap)" where
  "Browser_Entries h b ks =
     (case cache b of
        Some c \<Rightarrow> Entries_range (entries c) ks [] h
      | None \<Rightarrow> Inr ([], h))"

text \<open>
  The entry stored under key \<open>k\<close>, that is \<^verbatim>\<open>*b.cache.entries[k]\<close>, where there is
  one.
\<close>

definition cached :: "heap \<Rightarrow> (string \<rightharpoonup> addr option) \<Rightarrow> string \<Rightarrow> ServiceEntry option" where
  "cached h m k = (case m k of Some (Some p) \<Rightarrow> Some (objs h p) | _ \<Rightarrow> None)"

text \<open>
  In a Go program every pointer that is not nil points to an allocated cell.
  \<open>live_entries\<close> says so for the pointers stored under the keys \<open>ks\<close>, and that none
  of them is nil.
\<close>

definition live_entries :: "heap \<Rightarrow> (string \<rightharpoonup> addr option) \<Rightarrow> string list \<Rightarrow> bool" where
  "live_entries h m ks \<longleftrightarrow>
     (\<forall>k \<in> set ks. case m k of Some (Some p) \<Rightarrow> p < nextAddr h | _ \<Rightarrow> False)"

subsection \<open>What a caller can do with a returned entry\<close>

text \<open>
  The caller of \<^verbatim>\<open>Entries\<close> owns the returned slice. An assignment to fields of its
  element at address \<open>a\<close> (\<^verbatim>\<open>r[i].HostName = x\<close>, \<^verbatim>\<open>r[i].Text = t\<close>, a call of a
  \<^verbatim>\<open>ServiceRecord\<close> method on \<^verbatim>\<open>&r[i]\<close>, ...) rewrites that cell: \<open>assign_entry\<close>,
  for an arbitrary function \<open>f\<close> on the struct. An index expression on a
  \<^verbatim>\<open>[]string\<close> reads or writes an element cell through the slice header, and panics
  when the index is not below the length: \<open>load_string\<close> is \<^verbatim>\<open>s[j]\<close> and
  \<open>store_string\<close> is \<^verbatim>\<open>s[j] = v\<close>.
\<close>

definition assign_entry :: "addr \<Rightarrow> (ServiceEntry \<Rightarrow> ServiceEntry) \<Rightarrow> heap \<Rightarrow> heap" where
  "assign_entry a f h = h\<lparr>objs := (objs h)(a := f (objs h a))\<rparr>"

definition load_string :: "slice \<Rightarrow> nat \<Rightarrow> heap \<Rightarrow> panic + string" where
  "load_string s j h =
     (if j < len s
      then (case data s of None \<Rightarrow> Inl NilDereference | Some p \<Rightarrow> Inr (strCells h (p + j)))
      else Inl IndexOutOfRange)"

definition store_string :: "slice \<Rightarrow> nat \<Rightarrow> string \<Rightarrow> heap \<Rightarrow> panic + heap" where
  "store_string s j v h =
     (if j < len s
      then (case data s of
              None \<Rightarrow> Inl NilDereference
            | Some p \<Rightarrow> Inr (h\<lparr>strCells := (strCells h)(p + j := v)\<rparr>))
      else Inl IndexOutOfRange)"

subsection \<open>A record\<close>

definition example_record :: ServiceRecord where
  "example_record = NewServiceRecord ''My Printer'' ''_http._tcp'' ''local''"

subsection \<open>A cache with one entry\<close>

text \<open>
  A store in which the cache holds one entry, at address 1: its \<^verbatim>\<open>Text\<close> is a slice
  of one string, whose element is the cell 10, and its \<^verbatim>\<open>expiryTime\<close> points to the
  instant 100, at address 2. The store also holds an open channel, at address 3.
\<close>

definition example_entry :: ServiceEntry where
  "example_entry =
     (NewServiceEntry ''My Printer'' ''_http._tcp'' ''local'')
       \<lparr>HostName := ''printer.local.'', Port := 631,
        Text := \<lparr>data = Some 10, len = 1, cap = 1\<rparr>, TTL := 120,
        eventType := NewOrUpdated, expiryTime := Some 2\<rparr>"

definition example_heap :: heap where
  "example_heap =
     \<lparr>chan_closed = (\<lambda>a. False),
      objs = (\<lambda>a. NewServiceEntry [] [] [])(1 := example_entry),
      strCells = (\<lambda>a. [])(10 := ''txtvers=1''),
      ipCells = (\<lambda>a. nil_slice),
      byteCells = (\<lambda>a. 0),
      timeCells = (\<lambda>a. 0)(2 := 100),
      nextAddr = 20\<rparr>"

definition example_key :: string where
  "example_key = ''My Printer._http._tcp.local.''"

definition example_cache :: entryCache where
  "example_cache = \<lparr>entries = [example_key \<mapsto> Some 1]\<rparr>"

definition example_browser :: Browser where
  "example_browser = \<lparr>cache = Some example_cache\<rparr>"

text \<open>The store after one call of \<^verbatim>\<open>Entries\<close>, which has put its copy at address 20.\<close>

definition example_heap_read :: heap where
  "example_heap_read =
     example_heap\<lparr>objs := (objs example_heap)(20 := example_entry), nextAddr := 21\<rparr>"

text \<open>
  The store after the caller has then executed \<^verbatim>\<open>r[0].Text[0] = "txtvers=2"\<close>.
\<close>

definition example_heap_written :: heap where
  "example_heap_written =
     example_heap_read\<lparr>strCells := (strCells example_heap_read)(10 := ''txtvers=2'')\<rparr>"

text \<open>
  Two assignments that a caller may make to an entry it got back:
  \<^verbatim>\<open>e.HostName = "other.local."; e.Text = nil\<close>.
\<close>

definition example_assignment :: "ServiceEntry \<Rightarrow> ServiceEntry" where
  "example_assignment e = e\<lparr>HostName := ''other.local.'', Text := nil_slice\<rparr>"

subsection \<open>A lookup subscription\<close>

text \<open>
  The subscription that \<^verbatim>\<open>NewLookupParams\<close> builds in the store above for the open
  channel at address 3, with the store it leaves, and the same with a nil channel.
\<close>

definition example_lookup :: "LookupParams \<times> heap" where
  "example_lookup = NewLookupParams example_heap ''My Printer'' ''_http._tcp'' ''local'' (Some 3)"

definition example_lookup_nil :: "LookupParams \<times> heap" where
  "example_lookup_nil = NewLookupParams example_heap ''My Printer'' ''_http._tcp'' ''local'' None"

section \<open>Auxiliary facts\<close>

lemma trimDot_append_dot: "trimDot (s @ ''.'') = trimDot s"
  by (simp add: trimDot_def)

lemma live_entries_Cons:
  "live_entries h m (k # ks) \<longleftrightarrow>
     (\<exists>p. m k = Some (Some p) \<and> p < nextAddr h) \<and> live_entries h m ks"
  by (auto simp: live_entries_def split: option.splits)

lemma live_entries_mono:
  "live_entries h m ks \<Longrightarrow> nextAddr h \<le> nextAddr h' \<Longrightarrow> live_entries h' m ks"
  by (fastforce simp: live_entries_def split: option.splits)

lemma map_Some_eq:
  assumes "map (\<lambda>a. Some (f a)) xs = map (\<lambda>a. Some (g a)) ys"
  shows "map f xs = map g ys"
proof -
  have "map the (map (\<lambda>a. Some (f a)) xs) = map the (map (\<lambda>a. Some (g a)) ys)"
    by (simp only: assms)
  then show ?thesis by (simp add: comp_def)
qed

text \<open>
  What the loop of \<^verbatim>\<open>Entries\<close> does when every pointer it meets is live: it does not
  panic, it appends one fresh cell per key, in the order of iteration, each cell holds a
  copy of the struct stored under its key, and nothing else in the store changes.
\<close>

lemma Entries_range_copies:
  "live_entries h m ks \<Longrightarrow>
   \<exists>h'. Entries_range m ks r h = Inr (r @ [nextAddr h ..< nextAddr h + length ks], h')
      \<and> h' = h\<lparr>objs := objs h', nextAddr := nextAddr h + length ks\<rparr>
      \<and> (\<forall>a < nextAddr h. objs h' a = objs h a)
      \<and> map (\<lambda>a. Some (objs h' a)) [nextAddr h ..< nextAddr h + length ks]
          = map (cached h m) ks"
proof (induction ks arbitrary: r h)
  case Nil
  then show ?case by simp
next
  case (Cons k ks)
  from Cons.prems obtain p where p: "m k = Some (Some p)" "p < nextAddr h"
    and live: "live_entries h m ks"
    by (auto simp: live_entries_Cons)
  define n where "n = nextAddr h"
  define h1 where "h1 = h\<lparr>objs := (objs h)(n := objs h p), nextAddr := Suc n\<rparr>"
  have n1: "nextAddr h1 = Suc n" by (simp add: h1_def)
  have "live_entries h1 m ks"
    using live by (rule live_entries_mono) (simp add: h1_def n_def)
  from Cons.IH [OF this, of "r @ [n]"] obtain h' where
    run: "Entries_range m ks (r @ [n]) h1 = Inr ((r @ [n]) @ [Suc n ..< Suc n + length ks], h')"
    and frame: "h' = h1\<lparr>objs := objs h', nextAddr := Suc n + length ks\<rparr>"
    and old: "\<forall>a < Suc n. objs h' a = objs h1 a"
    and new: "map (\<lambda>a. Some (objs h' a)) [Suc n ..< Suc n + length ks] = map (cached h1 m) ks"
    unfolding n1 by blast
  have step: "Entries_range m (k # ks) r h = Entries_range m ks (r @ [n]) h1"
    using p by (simp add: append_entry_def h1_def n_def)
  have upt: "[n ..< n + length (k # ks)] = n # [Suc n ..< Suc n + length ks]"
    by (subst upt_rec) simp
  have unchanged: "cached h1 m k' = cached h m k'" if "k' \<in> set ks" for k'
    using that live p(2)
    by (auto simp: cached_def h1_def n_def live_entries_def split: option.splits)
  have "Entries_range m (k # ks) r h = Inr (r @ [n ..< n + length (k # ks)], h')"
    using step run upt by simp
  moreover have "h' = h\<lparr>objs := objs h', nextAddr := n + length (k # ks)\<rparr>"
    using frame by (simp add: h1_def)
  moreover have "\<forall>a < n. objs h' a = objs h a"
    using old by (simp add: h1_def)
  moreover have "map (\<lambda>a. Some (objs h' a)) [n ..< n + length (k # ks)]
                 = map (cached h m) (k # ks)"
  proof -
    have "objs h' n = objs h p" using old by (simp add: h1_def)
    then have "Some (objs h' n) = cached h m k" using p by (simp add: cached_def)
    moreover have "map (cached h1 m) ks = map (cached h m) ks" using unchanged by simp
    ultimately show ?thesis using new upt by simp
  qed
  ultimately show ?case unfolding n_def by blast
qed

text \<open>
  The sibling of \<^verbatim>\<open>done\<close>: \<^verbatim>\<open>disableProbing\<close> closes its channel under the
  \<^verbatim>\<open>sync.Once\<close>, so a second call finds the action done and changes nothing.
  \<^verbatim>\<open>done\<close> has no such guard: whenever a first call has closed a channel, a second
  call panics.
\<close>

lemma disableProbing_after_disableProbing:
  "disableProbing h l = Inr (l1, h1) \<Longrightarrow> disableProbing h1 l1 = Inr (l1, h1)"
  by (auto simp: disableProbing_def split: if_splits sum.splits)

lemma done_after_done:
  "Entries l \<noteq> None \<Longrightarrow> LookupParams_done h l = Inr (l1, h1) \<Longrightarrow>
   LookupParams_done h1 l1 = Inl CloseOfClosedChannel"
  by (auto simp: LookupParams_done_def close_chan_def split: if_splits)

section \<open>Derived names\<close>

text \<open>
  C6. For the record with instance "My Printer", service "_http._tcp" and domain "local",
  \<^verbatim>\<open>ServiceName()\<close> returns exactly "_http._tcp.local." and
  \<^verbatim>\<open>ServiceInstanceName()\<close> returns exactly "My Printer._http._tcp.local.".
\<close>

theorem names_of_My_Printer:
  "fst (ServiceName (NewServiceRecord ''My Printer'' ''_http._tcp'' ''local''))
     = ''_http._tcp.local.''
   \<and> fst (ServiceInstanceName (NewServiceRecord ''My Printer'' ''_http._tcp'' ''local''))
     = ''My Printer._http._tcp.local.''"
  by (simp add: ServiceName_def ServiceInstanceName_def NewServiceRecord_def trimDot_def)

text \<open>
  C7. For every record whose instance field is the empty string,
  \<^verbatim>\<open>ServiceInstanceName()\<close> returns the empty string, whatever the service and domain
  fields (and the memo fields) hold; the record is left as it was.
\<close>

theorem ServiceInstanceName_empty_instance:
  "Instance s = [] \<Longrightarrow> ServiceInstanceName s = ([], s)"
  by (simp add: ServiceInstanceName_def)

theorem ServiceInstanceName_empty_instance_witness:
  "Instance (NewServiceRecord [] ''_http._tcp'' ''local'') = []
   \<and> ServiceInstanceName (NewServiceRecord [] ''_http._tcp'' ''local'')
       = ([], NewServiceRecord [] ''_http._tcp'' ''local'')"
proof -
  have h: "Instance (NewServiceRecord [] ''_http._tcp'' ''local'') = []"
    by (simp add: NewServiceRecord_def)
  show ?thesis using h ServiceInstanceName_empty_instance [OF h] by simp
qed

text \<open>
  C3, evaluated at a record with an empty domain. The field comment of \<^verbatim>\<open>Domain\<close>
  says "If blank, assumes local", and \<^verbatim>\<open>ServiceTypeName()\<close> does substitute
  "local"; \<^verbatim>\<open>ServiceName()\<close> formats the empty domain as it is and returns
  "_http._tcp.." (and \<^verbatim>\<open>ServiceInstanceName()\<close>, built on it, ends in ".." as well)
  where the claim requires "_http._tcp.local.".
\<close>

theorem ServiceName_empty_domain:
  "fst (ServiceName (NewServiceRecord ''My Printer'' ''_http._tcp'' [])) = ''_http._tcp..''
   \<and> fst (ServiceInstanceName (NewServiceRecord ''My Printer'' ''_http._tcp'' []))
       = ''My Printer._http._tcp..''
   \<and> fst (ServiceTypeName (NewServiceRecord ''My Printer'' ''_http._tcp'' []))
       = ''_services._dns-sd._udp.local.''"
  by (simp add: ServiceName_def ServiceInstanceName_def ServiceTypeName_def
      NewServiceRecord_def trimDot_def)

text \<open>
  C8. For all non-empty instance and domain strings and every service string, appending
  a trailing dot to any of the three components (\<open>a\<close>, \<open>b\<close>, \<open>c\<close> are each empty or a
  dot) before constructing the record yields the same \<^verbatim>\<open>ServiceName()\<close>,
  \<^verbatim>\<open>ServiceInstanceName()\<close> and \<^verbatim>\<open>ServiceTypeName()\<close> as constructing it
  without. The claim also assumes the service non-empty, which is not needed.
\<close>

theorem trailing_dot_insensitive:
  assumes "instance \<noteq> []" and "domain \<noteq> []"
    and "a \<in> {[], ''.''}" and "b \<in> {[], ''.''}" and "c \<in> {[], ''.''}"
  shows "fst (ServiceName (NewServiceRecord (instance @ a) (service @ b) (domain @ c)))
           = fst (ServiceName (NewServiceRecord instance service domain))
       \<and> fst (ServiceInstanceName (NewServiceRecord (instance @ a) (service @ b) (domain @ c)))
           = fst (ServiceInstanceName (NewServiceRecord instance service domain))
       \<and> fst (ServiceTypeName (NewServiceRecord (instance @ a) (service @ b) (domain @ c)))
           = fst (ServiceTypeName (NewServiceRecord instance service domain))"
proof -
  have i: "trimDot (instance @ a) = trimDot instance"
    using assms(3) by (auto simp: trimDot_append_dot)
  have s: "trimDot (service @ b) = trimDot service"
    using assms(4) by (auto simp: trimDot_append_dot)
  have d: "trimDot (domain @ c) = trimDot domain"
    using assms(5) by (auto simp: trimDot_append_dot)
  show ?thesis
    using assms(1,2)
    by (simp add: ServiceName_def ServiceInstanceName_def ServiceTypeName_def
        NewServiceRecord_def i s d)
qed

theorem trailing_dot_insensitive_witness:
  "''My Printer'' \<noteq> [] \<and> ''local'' \<noteq> []
   \<and> ''.'' \<in> {[], ''.''} \<and> [] \<in> {[], ''.''}
   \<and> fst (ServiceName (NewServiceRecord ''My Printer.'' ''_http._tcp'' ''local.''))
        = ''_http._tcp.local.''
   \<and> fst (ServiceInstanceName (NewServiceRecord ''My Printer.'' ''_http._tcp'' ''local.''))
        = ''My Printer._http._tcp.local.''
   \<and> fst (ServiceTypeName (NewServiceRecord ''My Printer.'' ''_http._tcp'' ''local.''))
        = ''_services._dns-sd._udp.local.''"
proof -
  have i: "''My Printer'' \<noteq> []" and d: "''local'' \<noteq> []" by simp_all
  have a: "''.'' \<in> {[], ''.''}" and b: "[] \<in> {[], ''.''}" by simp_all
  have r: "fst (ServiceName (NewServiceRecord ''My Printer'' ''_http._tcp'' ''local''))
             = ''_http._tcp.local.''"
    "fst (ServiceInstanceName (NewServiceRecord ''My Printer'' ''_http._tcp'' ''local''))
       = ''My Printer._http._tcp.local.''"
    "fst (ServiceTypeName (NewServiceRecord ''My Printer'' ''_http._tcp'' ''local''))
       = ''_services._dns-sd._udp.local.''"
    by (simp_all add: ServiceName_def ServiceInstanceName_def ServiceTypeName_def
        NewServiceRecord_def trimDot_def)
  show ?thesis
    using i d a b r trailing_dot_insensitive [OF i d a b a, of "''_http._tcp''"] by simp
qed

text \<open>
  C9. For every record with a non-empty instance, each of \<^verbatim>\<open>ServiceName()\<close>,
  \<^verbatim>\<open>ServiceInstanceName()\<close> and \<^verbatim>\<open>ServiceTypeName()\<close>, called a second time on
  the record that the first call left, returns the same string and leaves the record as
  it is; that string is the one the first call stored in the memo field; and the second
  call does not compute it again: it returns the same string even when the service and
  domain fields have been overwritten in between. The claim also assumes the service and
  the domain non-empty, which is not needed.
\<close>

theorem derived_names_memoised:
  assumes "Instance s \<noteq> []"
  shows "ServiceName (snd (ServiceName s)) = ServiceName s
       \<and> ServiceInstanceName (snd (ServiceInstanceName s)) = ServiceInstanceName s
       \<and> ServiceTypeName (snd (ServiceTypeName s)) = ServiceTypeName s
       \<and> serviceName (snd (ServiceName s)) = fst (ServiceName s)
       \<and> serviceInstanceName (snd (ServiceInstanceName s)) = fst (ServiceInstanceName s)
       \<and> serviceTypeName (snd (ServiceTypeName s)) = fst (ServiceTypeName s)
       \<and> fst (ServiceName (snd (ServiceName s)\<lparr>Service := x, Domain := y\<rparr>))
           = fst (ServiceName s)
       \<and> fst (ServiceInstanceName (snd (ServiceInstanceName s)\<lparr>Service := x, Domain := y\<rparr>))
           = fst (ServiceInstanceName s)
       \<and> fst (ServiceTypeName (snd (ServiceTypeName s)\<lparr>Service := x, Domain := y\<rparr>))
           = fst (ServiceTypeName s)"
  using assms
  by (simp add: ServiceName_def ServiceInstanceName_def ServiceTypeName_def Let_def
      split: prod.splits)

theorem derived_names_memoised_witness:
  "Instance example_record \<noteq> []
   \<and> fst (ServiceInstanceName example_record) = ''My Printer._http._tcp.local.''
   \<and> ServiceInstanceName (snd (ServiceInstanceName example_record))
       = ServiceInstanceName example_record
   \<and> serviceInstanceName (snd (ServiceInstanceName example_record))
       = ''My Printer._http._tcp.local.''
   \<and> fst (ServiceInstanceName
             (snd (ServiceInstanceName example_record)
                \<lparr>Service := ''_ipp._tcp'', Domain := ''example.org''\<rparr>))
       = ''My Printer._http._tcp.local.''
   \<and> fst (ServiceName
             (snd (ServiceName example_record)
                \<lparr>Service := ''_ipp._tcp'', Domain := ''example.org''\<rparr>))
       = ''_http._tcp.local.''
   \<and> fst (ServiceTypeName
             (snd (ServiceTypeName example_record)
                \<lparr>Service := ''_ipp._tcp'', Domain := ''example.org''\<rparr>))
       = ''_services._dns-sd._udp.local.''"
proof -
  have h: "Instance example_record \<noteq> []"
    by (simp add: example_record_def NewServiceRecord_def)
  have v: "fst (ServiceInstanceName example_record) = ''My Printer._http._tcp.local.''"
    "fst (ServiceName example_record) = ''_http._tcp.local.''"
    "fst (ServiceTypeName example_record) = ''_services._dns-sd._udp.local.''"
    by (simp_all add: example_record_def NewServiceRecord_def ServiceInstanceName_def
        ServiceName_def ServiceTypeName_def trimDot_def)
  show ?thesis
    using h v
      derived_names_memoised [OF h, where x = "''_ipp._tcp''" and y = "''example.org''"]
    by simp
qed

section \<open>Closing a subscription\<close>

text \<open>
  C2, evaluated at the subscription built by \<^verbatim>\<open>NewLookupParams\<close> for an open
  channel: the first call of \<^verbatim>\<open>done()\<close> closes the channel at address 3, and the
  second call closes it again, which panics. The \<^verbatim>\<open>sync.Once\<close> of the struct guards
  \<^verbatim>\<open>disableProbing\<close> only.
\<close>

theorem done_twice_panics:
  "LookupParams_done (snd example_lookup) (fst example_lookup)
     = Inr (fst example_lookup,
            (snd example_lookup)\<lparr>chan_closed := (chan_closed (snd example_lookup))(3 := True)\<rparr>)
   \<and> LookupParams_done
        ((snd example_lookup)\<lparr>chan_closed := (chan_closed (snd example_lookup))(3 := True)\<rparr>)
        (fst example_lookup)
     = Inl CloseOfClosedChannel"
  by (simp add: example_lookup_def NewLookupParams_def make_chan_def LookupParams_done_def
      close_chan_def example_heap_def ServiceRecord.defs LookupParams.defs NewServiceRecord_def)

text \<open>
  C10. For every subscription whose \<^verbatim>\<open>Entries\<close> channel is nil, \<^verbatim>\<open>done()\<close> does
  not panic and changes neither the subscription nor the store: it returns both as they
  were. So a call that closes a channel, or panics, has a non-nil \<^verbatim>\<open>Entries\<close>.
\<close>

theorem done_nil_channel_noop:
  "Entries l = None \<Longrightarrow> LookupParams_done h l = Inr (l, h)"
  by (simp add: LookupParams_done_def)

theorem done_nil_channel_noop_witness:
  "Entries (fst example_lookup_nil) = None
   \<and> LookupParams_done (snd example_lookup_nil) (fst example_lookup_nil)
       = Inr (fst example_lookup_nil, snd example_lookup_nil)"
proof -
  have h: "Entries (fst example_lookup_nil) = None"
    by (simp add: example_lookup_nil_def NewLookupParams_def make_chan_def
        ServiceRecord.defs LookupParams.defs)
  show ?thesis using h done_nil_channel_noop [OF h] by simp
qed

section \<open>Reading the cache\<close>

text \<open>
  C1 fails as stated. In the example store the cache holds an entry whose
  \<^verbatim>\<open>expiryTime\<close> is the instant 100. At any later time of call, 200 say,
  \<^verbatim>\<open>Entries()\<close> still returns one element, the cell 20, and it is a copy of that
  entry: \<^verbatim>\<open>Entries()\<close> reads neither the clock nor \<^verbatim>\<open>expiryTime\<close>.
\<close>

theorem Entries_returns_expired_entry:
  "Browser_Entries example_heap example_browser [example_key] = Inr ([20], example_heap_read)
   \<and> objs example_heap_read 20 = example_entry
   \<and> expiryTime example_entry = Some 2
   \<and> timeCells example_heap_read 2 = 100 \<and> (100::int) < 200"
  by (simp add: Browser_Entries_def example_browser_def example_cache_def example_heap_def
      example_heap_read_def append_entry_def example_entry_def)

text \<open>
  C1, amended. For every cache whose pointers are live and every order of iteration,
  \<^verbatim>\<open>Entries()\<close> does not panic and returns, key by key, a copy of the entry stored
  under each key of the cache: every stored entry is among the results whatever its
  \<^verbatim>\<open>expiryTime\<close>, and the stored instants are not changed. An entry is absent from
  the result only when it is absent from the map.
\<close>

theorem Entries_returns_every_cached_entry:
  assumes "cache b = Some c" and "range_order (entries c) ks"
    and "live_entries h (entries c) ks"
  shows "\<exists>r h'. Browser_Entries h b ks = Inr (r, h')
           \<and> map (\<lambda>a. Some (objs h' a)) r = map (cached h (entries c)) ks
           \<and> (\<forall>k p. entries c k = Some (Some p) \<longrightarrow> objs h p \<in> objs h' ` set r)
           \<and> timeCells h' = timeCells h"
proof -
  from Entries_range_copies [OF assms(3), of "[]"] obtain h' where
    run: "Entries_range (entries c) ks [] h = Inr ([nextAddr h ..< nextAddr h + length ks], h')"
    and frame: "h' = h\<lparr>objs := objs h', nextAddr := nextAddr h + length ks\<rparr>"
    and copies: "map (\<lambda>a. Some (objs h' a)) [nextAddr h ..< nextAddr h + length ks]
                 = map (cached h (entries c)) ks"
    by auto
  define r where "r = [nextAddr h ..< nextAddr h + length ks]"
  have 1: "Browser_Entries h b ks = Inr (r, h')"
    using assms(1) run by (simp add: Browser_Entries_def r_def)
  have 2: "map (\<lambda>a. Some (objs h' a)) r = map (cached h (entries c)) ks"
    using copies by (simp add: r_def)
  have 3: "objs h p \<in> objs h' ` set r" if "entries c k = Some (Some p)" for k p
  proof -
    have "k \<in> set ks" using that assms(2) by (auto simp: range_order_def)
    then have "cached h (entries c) k \<in> set (map (cached h (entries c)) ks)" by simp
    then have "Some (objs h p) \<in> set (map (\<lambda>a. Some (objs h' a)) r)"
      using that 2 by (simp add: cached_def)
    then show ?thesis by auto
  qed
  have 4: "timeCells h' = timeCells h"
    by (subst frame) simp
  show ?thesis using 1 2 3 4 by blast
qed

theorem Entries_returns_every_cached_entry_witness:
  "cache example_browser = Some example_cache
   \<and> range_order (entries example_cache) [example_key]
   \<and> live_entries example_heap (entries example_cache) [example_key]
   \<and> cached example_heap (entries example_cache) example_key = Some example_entry
   \<and> (\<exists>r h'. Browser_Entries example_heap example_browser [example_key] = Inr (r, h')
           \<and> map (\<lambda>a. Some (objs h' a)) r
               = map (cached example_heap (entries example_cache)) [example_key]
           \<and> (\<forall>k p. entries example_cache k = Some (Some p)
                  \<longrightarrow> objs example_heap p \<in> objs h' ` set r)
           \<and> timeCells h' = timeCells example_heap)"
proof -
  have a: "cache example_browser = Some example_cache"
    by (simp add: example_browser_def)
  have b: "range_order (entries example_cache) [example_key]"
    by (simp add: range_order_def example_cache_def)
  have c: "live_entries example_heap (entries example_cache) [example_key]"
    by (simp add: live_entries_def example_heap_def example_cache_def)
  have d: "cached example_heap (entries example_cache) example_key = Some example_entry"
    by (simp add: cached_def example_heap_def example_cache_def)
  show ?thesis
    using a b c d Entries_returns_every_cached_entry [OF a b c] by blast
qed

text \<open>
  C4 fails as stated. \<^verbatim>\<open>Entries()\<close> copies each struct, and with it the three slice
  headers, not the elements they point to. In the example store the caller gets the cell
  20, whose \<^verbatim>\<open>Text\<close> has its element at address 10, as the cached entry's has. After
  \<^verbatim>\<open>r[0].Text[0] = "txtvers=2"\<close> the entry stored in the cache reads "txtvers=2"
  where it read "txtvers=1".
\<close>

theorem returned_Text_shares_cached_elements:
  "Browser_Entries example_heap example_browser [example_key] = Inr ([20], example_heap_read)
   \<and> load_string (Text (objs example_heap 1)) 0 example_heap = Inr ''txtvers=1''
   \<and> store_string (Text (objs example_heap_read 20)) 0 ''txtvers=2'' example_heap_read
       = Inr example_heap_written
   \<and> load_string (Text (objs example_heap_written 1)) 0 example_heap_written = Inr ''txtvers=2''"
  by (simp add: Browser_Entries_def example_browser_def example_cache_def example_heap_def
      example_heap_read_def example_heap_written_def append_entry_def example_entry_def
      load_string_def store_string_def)

text \<open>
  C4, amended. For every cache whose pointers are live, the entries that \<^verbatim>\<open>Entries()\<close>
  returns are copies of the structs: whatever a caller assigns to the fields of a returned
  entry (\<open>f\<close> is arbitrary, and may replace the \<^verbatim>\<open>Text\<close>, \<^verbatim>\<open>AddrIPv4\<close> and
  \<^verbatim>\<open>AddrIPv6\<close> slices), every entry stored in the cache keeps its value, the elements
  of its sequences and the stored instants keep theirs, and a subsequent
  \<^verbatim>\<open>Entries()\<close> returns the values that the first one returned.
\<close>

theorem assigning_returned_entry_keeps_cache:
  assumes "cache b = Some c" and "range_order (entries c) ks"
    and "live_entries h (entries c) ks"
    and "Browser_Entries h b ks = Inr (r, h1)" and "a \<in> set r"
  shows "(\<forall>k p j. entries c k = Some (Some p) \<longrightarrow>
            objs (assign_entry a f h1) p = objs h p
            \<and> load_string (Text (objs (assign_entry a f h1) p)) j (assign_entry a f h1)
                = load_string (Text (objs h p)) j h)
       \<and> strCells (assign_entry a f h1) = strCells h
       \<and> ipCells (assign_entry a f h1) = ipCells h
       \<and> byteCells (assign_entry a f h1) = byteCells h
       \<and> timeCells (assign_entry a f h1) = timeCells h
       \<and> (\<exists>r' h3. Browser_Entries (assign_entry a f h1) b ks = Inr (r', h3)
              \<and> map (objs h3) r' = map (objs h1) r)"
proof -
  define m where "m = entries c"
  define n where "n = nextAddr h"
  define h2 where "h2 = assign_entry a f h1"
  have live: "live_entries h m ks" using assms(3) by (simp add: m_def)
  from Entries_range_copies [OF live, of "[]"] assms(1,4)
  have r: "r = [n ..< n + length ks]"
    and frame: "h1 = h\<lparr>objs := objs h1, nextAddr := n + length ks\<rparr>"
    and old: "\<forall>a' < n. objs h1 a' = objs h a'"
    and copies: "map (\<lambda>a'. Some (objs h1 a')) r = map (cached h m) ks"
    by (auto simp: Browser_Entries_def m_def n_def)
  have a: "n \<le> a" using assms(5) r by simp
  have next1: "nextAddr h1 = n + length ks" by (subst frame) simp
  have str: "strCells h2 = strCells h" unfolding h2_def assign_entry_def by (subst frame) simp
  have ip: "ipCells h2 = ipCells h" unfolding h2_def assign_entry_def by (subst frame) simp
  have byte: "byteCells h2 = byteCells h" unfolding h2_def assign_entry_def by (subst frame) simp
  have time: "timeCells h2 = timeCells h" unfolding h2_def assign_entry_def by (subst frame) simp
  have obj: "objs h2 p = objs h p" if "p < n" for p
    using that a old by (simp add: h2_def assign_entry_def)
  have below: "p < n" if "m k = Some (Some p)" for k p
  proof -
    have "k \<in> set ks" using that assms(2) by (auto simp: range_order_def m_def)
    then show ?thesis using live that by (auto simp: live_entries_def n_def)
  qed
  have 1: "objs h2 p = objs h p
           \<and> load_string (Text (objs h2 p)) j h2 = load_string (Text (objs h p)) j h"
    if "entries c k = Some (Some p)" for k p j
    using obj [OF below [OF that [folded m_def]]] str
    by (simp add: load_string_def split: option.splits)
  have same: "cached h2 m k = cached h m k" for k
    using obj below by (auto simp: cached_def split: option.splits)
  have "live_entries h2 m ks"
    using live by (rule live_entries_mono) (simp add: h2_def assign_entry_def next1 n_def)
  from Entries_range_copies [OF this, of "[]"] obtain h3 where
    run: "Entries_range m ks [] h2 = Inr ([nextAddr h2 ..< nextAddr h2 + length ks], h3)"
    and again: "map (\<lambda>a'. Some (objs h3 a')) [nextAddr h2 ..< nextAddr h2 + length ks]
                = map (cached h2 m) ks"
    by auto
  define r' where "r' = [nextAddr h2 ..< nextAddr h2 + length ks]"
  have "map (\<lambda>a'. Some (objs h3 a')) r' = map (\<lambda>a'. Some (objs h1 a')) r"
    using again copies same by (simp add: r'_def)
  then have "map (objs h3) r' = map (objs h1) r" by (rule map_Some_eq)
  moreover have "Browser_Entries h2 b ks = Inr (r', h3)"
    using run assms(1) by (simp add: Browser_Entries_def m_def r'_def)
  ultimately have 2: "\<exists>r' h3. Browser_Entries h2 b ks = Inr (r', h3)
                        \<and> map (objs h3) r' = map (objs h1) r"
    by blast
  show ?thesis using 1 2 str ip byte time unfolding h2_def by blast
qed

theorem assigning_returned_entry_keeps_cache_witness:
  "cache example_browser = Some example_cache
   \<and> range_order (entries example_cache) [example_key]
   \<and> live_entries example_heap (entries example_cache) [example_key]
   \<and> Browser_Entries example_heap example_browser [example_key] = Inr ([20], example_heap_read)
   \<and> 20 \<in> set [20::nat]
   \<and> HostName (objs (assign_entry 20 example_assignment example_heap_read) 20) = ''other.local.''
   \<and> entries example_cache example_key = Some (Some 1)
   \<and> objs (assign_entry 20 example_assignment example_heap_read) 1 = objs example_heap 1
   \<and> load_string (Text (objs (assign_entry 20 example_assignment example_heap_read) 1)) 0
        (assign_entry 20 example_assignment example_heap_read) = Inr ''txtvers=1''
   \<and> (\<exists>r' h3. Browser_Entries (assign_entry 20 example_assignment example_heap_read)
                 example_browser [example_key] = Inr (r', h3)
              \<and> map (objs h3) r' = map (objs example_heap_read) [20])"
proof -
  have a: "cache example_browser = Some example_cache"
    by (simp add: example_browser_def)
  have b: "range_order (entries example_cache) [example_key]"
    by (simp add: range_order_def example_cache_def)
  have c: "live_entries example_heap (entries example_cache) [example_key]"
    by (simp add: live_entries_def example_heap_def example_cache_def)
  have d: "Browser_Entries example_heap example_browser [example_key]
           = Inr ([20], example_heap_read)"
    by (simp add: Browser_Entries_def example_browser_def example_cache_def example_heap_def
        example_heap_read_def append_entry_def)
  have e: "20 \<in> set [20::nat]" by simp
  have f: "HostName (objs (assign_entry 20 example_assignment example_heap_read) 20)
           = ''other.local.''"
    by (simp add: assign_entry_def example_assignment_def)
  have g: "entries example_cache example_key = Some (Some 1)"
    by (simp add: example_cache_def)
  have i: "load_string (Text (objs example_heap 1)) 0 example_heap = Inr ''txtvers=1''"
    by (simp add: load_string_def example_heap_def example_entry_def)
  note t = assigning_returned_entry_keeps_cache [OF a b c d e, of example_assignment]
  from t g
  have "objs (assign_entry 20 example_assignment example_heap_read) 1 = objs example_heap 1"
    and "load_string (Text (objs (assign_entry 20 example_assignment example_heap_read) 1)) 0
           (assign_entry 20 example_assignment example_heap_read)
         = load_string (Text (objs example_heap 1)) 0 example_heap"
    by blast+
  then show ?thesis using a b c d e f g i t by simp
qed

section \<open>Event types\<close>

text \<open>
  C5 fails as stated. \<^verbatim>\<open>NewServiceEntry\<close> leaves \<^verbatim>\<open>eventType\<close> at its zero value,
  the empty string, so \<^verbatim>\<open>EventType()\<close> of a freshly built entry is neither
  \<^verbatim>\<open>NewOrUpdated\<close> nor \<^verbatim>\<open>Removed\<close>.
\<close>

theorem fresh_entry_has_no_event_type:
  "EventType (NewServiceEntry ''My Printer'' ''_http._tcp'' ''local'')
     \<notin> {NewOrUpdated, Removed}"
  by (simp add: EventType_def NewServiceEntry_def ServiceRecord.defs ServiceEntry.defs
      NewServiceRecord_def NewOrUpdated_def Removed_def)

text \<open>
  C5, amended. For every \<^verbatim>\<open>ServiceEntry\<close>, \<^verbatim>\<open>EventType()\<close> returns the
  \<^verbatim>\<open>eventType\<close> field as it is stored, so its result is \<^verbatim>\<open>NewOrUpdated\<close> or
  \<^verbatim>\<open>Removed\<close> exactly when the stored field is one of the two. The field of every
  entry freshly built by \<^verbatim>\<open>NewServiceEntry\<close> is the empty string, and so is the
  result there; the result is \<^verbatim>\<open>NewOrUpdated\<close> or \<^verbatim>\<open>Removed\<close> for an entry
  whose field has been set to that constant.
\<close>

theorem EventType_returns_field:
  "EventType e = eventType e
   \<and> (EventType e \<in> {NewOrUpdated, Removed})
       = (eventType e = NewOrUpdated \<or> eventType e = Removed)
   \<and> eventType (NewServiceEntry instance service domain) = []
   \<and> EventType (NewServiceEntry instance service domain) = []
   \<and> EventType (e\<lparr>eventType := NewOrUpdated\<rparr>) = NewOrUpdated
   \<and> EventType (e\<lparr>eventType := Removed\<rparr>) = Removed"
  by (simp add: EventType_def NewServiceEntry_def ServiceRecord.defs ServiceEntry.defs
      NewServiceRecord_def)

end
